theory Spec2Isabelle
  imports Main
begin

section \<open>PharmGKB drug-gene relations: the converter of \<open>pharm.py\<close>\<close>

text \<open>
  A shallow embedding of \<open>scripts/pharmgkb/drug_gene_relations/pharm.py\<close>. A Python
  \<open>str\<close> is modelled by the list of bytes of its UTF-8 encoding (\<^typ>\<open>string\<close>). The
  operations the script applies to strings (splitting on, counting and deleting ASCII
  characters, concatenation, equality, dictionary lookup) act on the encoding as they act
  on the code points; \<open>str.strip()\<close> is the one that looks at non-ASCII characters, and
  its table of white space is written out in UTF-8 below. What \<open>print\<close> writes is kept
  as a list of lines, what \<open>mcf_file.write\<close> writes as a list of blocks, and every
  exception the script can raise is a value of \<open>error\<close>.
\<close>

subsection \<open>Python string operations\<close>

datatype error = KeyError string | IndexError | FillError

definition dq :: char where
  "dq = CHR 0x22"

text \<open>\<open>s.split(c)\<close> for a one-character separator: never the empty list.\<close>

fun split_on :: "char \<Rightarrow> string \<Rightarrow> string list" where
  "split_on c [] = [[]]"
| "split_on c (x # xs) =
     (if x = c then [] # split_on c xs
      else (case split_on c xs of
              [] \<Rightarrow> [[x]]
            | t # ts \<Rightarrow> (x # t) # ts))"

text \<open>\<open>c.join(xs)\<close> for a one-character separator.\<close>

fun join_on :: "char \<Rightarrow> string list \<Rightarrow> string" where
  "join_on c [] = []"
| "join_on c [x] = x"
| "join_on c (x # y # ys) = x @ c # join_on c (y # ys)"

text \<open>\<open>s.count(c)\<close> and \<open>s.replace(c, '')\<close> for a one-character \<open>c\<close>.\<close>

definition count_char :: "char \<Rightarrow> string \<Rightarrow> nat" where
  "count_char c s = length (filter (\<lambda>x. x = c) s)"

definition remove_char :: "char \<Rightarrow> string \<Rightarrow> string" where
  "remove_char c s = filter (\<lambda>x. x \<noteq> c) s"

text \<open>
  \<open>s.replace(pat, '')\<close>: every occurrence of \<open>pat\<close> is deleted, scanning from the left
  and resuming after each deleted occurrence.
\<close>

fun remove_sub :: "string \<Rightarrow> string \<Rightarrow> string" where
  "remove_sub pat [] = []"
| "remove_sub pat (x # xs) =
     (if pat \<noteq> [] \<and> take (length pat) (x # xs) = pat
      then remove_sub pat (drop (length pat - 1) xs)
      else x # remove_sub pat xs)"

text \<open>
  The characters \<open>str.isspace\<close> accepts, each as its UTF-8 bytes: U+0009 to U+000D,
  U+001C to U+0020, U+0085, U+00A0, U+1680, U+2000 to U+200A, U+2028, U+2029, U+202F,
  U+205F and U+3000.
\<close>

definition whitespace :: "string list" where
  "whitespace =
     [[CHR 0x09], [CHR 0x0A], [CHR 0x0B], [CHR 0x0C], [CHR 0x0D],
      [CHR 0x1C], [CHR 0x1D], [CHR 0x1E], [CHR 0x1F], [CHR 0x20],
      [CHR 0xC2, CHR 0x85], [CHR 0xC2, CHR 0xA0],
      [CHR 0xE1, CHR 0x9A, CHR 0x80],
      [CHR 0xE2, CHR 0x80, CHR 0x80], [CHR 0xE2, CHR 0x80, CHR 0x81],
      [CHR 0xE2, CHR 0x80, CHR 0x82], [CHR 0xE2, CHR 0x80, CHR 0x83],
      [CHR 0xE2, CHR 0x80, CHR 0x84], [CHR 0xE2, CHR 0x80, CHR 0x85],
      [CHR 0xE2, CHR 0x80, CHR 0x86], [CHR 0xE2, CHR 0x80, CHR 0x87],
      [CHR 0xE2, CHR 0x80, CHR 0x88], [CHR 0xE2, CHR 0x80, CHR 0x89],
      [CHR 0xE2, CHR 0x80, CHR 0x8A],
      [CHR 0xE2, CHR 0x80, CHR 0xA8], [CHR 0xE2, CHR 0x80, CHR 0xA9],
      [CHR 0xE2, CHR 0x80, CHR 0xAF], [CHR 0xE2, CHR 0x81, CHR 0x9F],
      [CHR 0xE3, CHR 0x80, CHR 0x80]]"

definition ws_prefix :: "string list \<Rightarrow> string \<Rightarrow> string option" where
  "ws_prefix ws s = find (\<lambda>w. w \<noteq> [] \<and> take (length w) s = w) ws"

fun lstrip_with :: "string list \<Rightarrow> string \<Rightarrow> string" where
  "lstrip_with ws [] = []"
| "lstrip_with ws (x # xs) =
     (case ws_prefix ws (x # xs) of
        None \<Rightarrow> x # xs
      | Some w \<Rightarrow> lstrip_with ws (drop (length w - 1) xs))"

text \<open>\<open>s.strip()\<close>: white space is removed from both ends.\<close>

definition strip :: "string \<Rightarrow> string" where
  "strip s = rev (lstrip_with (map rev whitespace) (rev (lstrip_with whitespace s)))"

text \<open>\<open>s.strip(c)\<close> for a one-character \<open>c\<close>.\<close>

definition strip_char :: "char \<Rightarrow> string \<Rightarrow> string" where
  "strip_char c s = rev (dropWhile (\<lambda>x. x = c) (rev (dropWhile (\<lambda>x. x = c) s)))"

subsection \<open>Identifier resolver\<close>

text \<open>
  A cell of the conversion tables: a string, the float NaN pandas reads for a missing
  value, or \<open>None\<close>. \<open>pd.isnull\<close> holds of the last two; a string is truthy when it is
  not empty, NaN is truthy and \<open>None\<close> is not.
\<close>

datatype cell = Str string | NaN | PyNone

fun isnull :: "cell \<Rightarrow> bool" where
  "isnull (Str s) = False"
| "isnull NaN = True"
| "isnull PyNone = True"

fun truthy :: "cell \<Rightarrow> bool" where
  "truthy (Str s) = (s \<noteq> [])"
| "truthy NaN = True"
| "truthy PyNone = False"

definition merge_chembls :: "cell \<Rightarrow> cell \<Rightarrow> cell \<Rightarrow> cell" where
  "merge_chembls chembl1 chembl2 chembl3 =
     (if \<not> isnull chembl1 \<and> truthy chembl1 then chembl1
      else if \<not> isnull chembl2 \<and> truthy chembl2 then chembl2
      else if \<not> isnull chembl3 \<and> truthy chembl3 then chembl3
      else PyNone)"

text \<open>\<open>fillna('')\<close> on one cell, as \<open>get_drugs_df\<close> applies it to the whole table.\<close>

fun fillna :: "cell \<Rightarrow> string" where
  "fillna (Str s) = s"
| "fillna NaN = []"
| "fillna PyNone = []"

text \<open>
  A row of a data frame after \<open>fillna('')\<close>: every column holds a string, and
  \<open>row['Name']\<close> is \<open>row ''Name''\<close>.
\<close>

type_synonym row = "string \<Rightarrow> string"

definition get_drug_dcid :: "row \<Rightarrow> string" where
  "get_drug_dcid row =
     (if row ''Chembl ID'' \<noteq> [] then ''bio/'' @ row ''Chembl ID''
      else ''bio/'' @ row ''PharmGKB Accession Id'')"

text \<open>
  The specification's wording of the resolver: a candidate is usable when it is neither
  null nor empty, and the resolver picks the first usable one in the order given.
\<close>

fun usable :: "cell \<Rightarrow> bool" where
  "usable (Str s) = (s \<noteq> [])"
| "usable NaN = False"
| "usable PyNone = False"

definition first_usable :: "cell list \<Rightarrow> cell option" where
  "first_usable cs = find usable cs"

subsection \<open>Field formatters\<close>

record format_state =
  formatted_str :: string
  joining :: string
  printed :: "string list"

definition format_step :: "string \<Rightarrow> format_state \<Rightarrow> string \<Rightarrow> format_state" where
  "format_step text_list st prop_value =
     (if count_char dq prop_value = 0 \<and> joining st \<noteq> [] then
        st\<lparr>joining := joining st @ prop_value @ '',''\<rparr>
      else if count_char dq prop_value = 0 \<or> count_char dq prop_value = 2 then
        st\<lparr>formatted_str :=
             formatted_str st @ [dq] @ strip (remove_char dq prop_value) @ [dq] @ '',''\<rparr>
      else if count_char dq prop_value = 1 \<and> joining st \<noteq> [] then
        st\<lparr>formatted_str :=
             formatted_str st @ strip (joining st) @ remove_char dq prop_value @ [dq] @ '','',
           joining := []\<rparr>
      else if count_char dq prop_value = 1 then
        st\<lparr>joining := prop_value @ '',''\<rparr>
      else
        st\<lparr>printed := printed st @ [''unexpected format: '' @ text_list]\<rparr>)"

definition format_loop :: "string \<Rightarrow> string list \<Rightarrow> format_state" where
  "format_loop text_list tokens =
     foldl (format_step text_list)
       \<lparr>formatted_str = [], joining = [], printed = []\<rparr> tokens"

text \<open>The result is the string returned and the lines printed.\<close>

definition format_text_list :: "string \<Rightarrow> string \<times> string list" where
  "format_text_list text_list =
     (if text_list = [] then ([], [])
      else let st = format_loop text_list (split_on CHR '','' text_list)
           in (strip_char CHR '','' (formatted_str st), printed st))"

definition format_semicolon_list :: "string \<Rightarrow> string" where
  "format_semicolon_list semi_list =
     (if semi_list = [] then []
      else strip_char CHR '',''
             (foldl (\<lambda>formatted prop_value. formatted @ [dq] @ prop_value @ [dq] @ '','')
                [] (split_on CHR '';'' semi_list)))"

definition format_bool :: "string \<Rightarrow> string \<Rightarrow> string" where
  "format_bool text true_val = (if text = true_val then ''True'' else [])"

subsection \<open>Enum and cross-reference translators\<close>

text \<open>\<open>enum_dict[key]\<close> raises \<open>KeyError\<close> for a key the dictionary does not have.\<close>

fun get_enum_loop :: "(string \<rightharpoonup> string) \<Rightarrow> string \<Rightarrow> string list \<Rightarrow> error + string" where
  "get_enum_loop enum_dict formatted_enums [] = Inr formatted_enums"
| "get_enum_loop enum_dict formatted_enums (key # keys) =
     (case enum_dict key of
        None \<Rightarrow> Inl (KeyError key)
      | Some v \<Rightarrow> get_enum_loop enum_dict (formatted_enums @ ''dcid:'' @ v @ '','') keys)"

definition get_enum :: "string \<Rightarrow> (string \<rightharpoonup> string) \<Rightarrow> error + string" where
  "get_enum key_list enum_dict =
     (if key_list = [] then Inr []
      else (case get_enum_loop enum_dict [] (split_on CHR '','' key_list) of
              Inl e \<Rightarrow> Inl e
            | Inr formatted_enums \<Rightarrow> Inr (strip_char CHR '','' formatted_enums)))"

text \<open>
  One round of the loop of \<open>get_xref_mcf\<close>, on the text built so far and the lines
  printed so far. \<open>xref_pair[0]\<close> raises \<open>IndexError\<close> on an empty list; the lookup
  \<open>xref_to_label[xref_pair[0]]\<close> is reached only after the membership test.
\<close>

definition xref_step ::
  "string \<Rightarrow> (string \<rightharpoonup> string) \<Rightarrow> string \<times> string list \<Rightarrow> string
     \<Rightarrow> error + string \<times> string list" where
  "xref_step xrefs xref_to_label acc xref =
     (case split_on CHR '':'' (strip (remove_char dq xref)) of
        [] \<Rightarrow> Inl IndexError
      | source # rest \<Rightarrow>
          (case xref_to_label source of
             None \<Rightarrow> Inr (fst acc, snd acc @ [''unexpected format in gene xrefs:'' @ xrefs])
           | Some prop_label \<Rightarrow>
               Inr (fst acc @ prop_label @ '': '' @ [dq] @ strip (join_on CHR '':'' rest)
                      @ [dq] @ [CHR 0x0A],
                    snd acc)))"

fun xref_loop ::
  "string \<Rightarrow> (string \<rightharpoonup> string) \<Rightarrow> string \<times> string list \<Rightarrow> string list
     \<Rightarrow> error + string \<times> string list" where
  "xref_loop xrefs xref_to_label acc [] = Inr acc"
| "xref_loop xrefs xref_to_label acc (xref # rest) =
     (case xref_step xrefs xref_to_label acc xref of
        Inl e \<Rightarrow> Inl e
      | Inr acc' \<Rightarrow> xref_loop xrefs xref_to_label acc' rest)"

definition get_xref_mcf ::
  "string \<Rightarrow> (string \<rightharpoonup> string) \<Rightarrow> error + string \<times> string list" where
  "get_xref_mcf xrefs xref_to_label =
     (if xrefs = [] then Inr ([], [])
      else xref_loop xrefs xref_to_label ([], []) (split_on CHR '','' xrefs))"

subsection \<open>Gene identifiers and compound types\<close>

text \<open>
  What \<open>get_gene_dcids\<close> returns: a list of identifiers, or the empty string. A
  \<open>for\<close> loop over the empty string runs no round.
\<close>

datatype gene_dcids = Dcids "string list" | EmptyStr

fun iter_dcids :: "gene_dcids \<Rightarrow> string list" where
  "iter_dcids (Dcids ds) = ds"
| "iter_dcids EmptyStr = []"

definition get_gene_dcids :: "string \<Rightarrow> gene_dcids" where
  "get_gene_dcids symbol =
     (if symbol \<noteq> [] then Dcids [''bio/hg19_'' @ symbol, ''bio/hg38_'' @ symbol]
      else EmptyStr)"

definition drug_types :: "string list" where
  "drug_types = [''Drug'', ''Drug Class'', ''Prodrug'']"

text \<open>
  The Python set \<open>types\<close> is a list without repetition. \<open>types.pop()\<close> raises
  \<open>KeyError\<close> on the empty set, and is called here on sets of at most one element.
\<close>

definition types_add :: "string list \<Rightarrow> string \<Rightarrow> string list" where
  "types_add types compound_type =
     (if strip (remove_char dq compound_type) \<in> set drug_types
      then List.insert ''dcid:Drug'' types
      else List.insert ''dcid:ChemicalCompound'' types)"

fun types_pop :: "string list \<Rightarrow> error + string" where
  "types_pop [] = Inl (KeyError ''pop from an empty set'')"
| "types_pop (t # ts) = Inr t"

definition get_compound_type :: "string \<Rightarrow> error + string" where
  "get_compound_type compound_types =
     (let types = foldl types_add [] (split_on CHR '','' compound_types)
      in if length types = 2 then Inr ''dcs:ChemicalCompound,dcs:Drug''
         else types_pop types)"

subsection \<open>Configuration and template filler\<close>

text \<open>
  \<open>config.py\<close> is not among the sources: its templates and tables are the fields of
  a record the functions below take as a parameter.
\<close>

record config =
  GENE_TEMPLATE :: string
  DRUG_TEMPLATE :: string
  RELATION_TEMPLATE :: string
  ASSOCIATION_ENUM_DICT :: "string \<rightharpoonup> string"
  EVIDENCE_ENUM_DICT :: "string \<rightharpoonup> string"
  GENE_XREF_PROP_DICT :: "string \<rightharpoonup> string"
  DRUG_XREF_PROP_DICT :: "string \<rightharpoonup> string"

text \<open>
  Modelled from the spec: \<open>util/mcf_template_filler.py\<close> (\<open>Filler\<close> and its
  \<open>fill\<close>) is not among the sources. The specification says of it: given a template
  and a mapping of placeholder name to value, it substitutes only supplied placeholders
  and fails if any placeholder declared required is absent from the supplied mapping.
  The text substituted for a template and a mapping is left open: it is the parameter
  \<open>render\<close>. A Python dictionary literal is the list of its items in order.
\<close>

type_synonym renderer = "string \<Rightarrow> (string \<times> string) list \<Rightarrow> string"

definition fill ::
  "renderer \<Rightarrow> string \<Rightarrow> string list \<Rightarrow> (string \<times> string) list \<Rightarrow> error + string" where
  "fill render template required_vars kv_map =
     (if list_all (\<lambda>v. v \<in> set (map fst kv_map)) required_vars
      then Inr (render template kv_map)
      else Inl FillError)"

text \<open>\<open>{key: value for key, value in template_dict.items() if value}\<close>\<close>

definition remove_empty :: "(string \<times> string) list \<Rightarrow> (string \<times> string) list" where
  "remove_empty template_dict = filter (\<lambda>kv. snd kv \<noteq> []) template_dict"

subsection \<open>Gene nodes\<close>

text \<open>The output file and the standard output, each as the list of what was written.\<close>

record out =
  mcf_file :: "string list"
  stdout :: "string list"

text \<open>The result of \<open>get_gene_mcf\<close> is the node block and the lines printed on the way.\<close>

definition get_gene_mcf ::
  "renderer \<Rightarrow> config \<Rightarrow> row \<Rightarrow> string \<Rightarrow> error + string \<times> string list" where
  "get_gene_mcf render cfg row gene_dcid =
     (let ncbi = format_text_list (row ''NCBI Gene ID'');
          hgnc = format_text_list (row ''HGNC ID'');
          ensembl = format_text_list (row ''Ensembl Id'');
          alt_symb = format_text_list (row ''Alternate Symbols'');
          template_dict = remove_empty
            [(''dcid'', gene_dcid),
             (''name'', row ''Name''),
             (''symbol'', row ''Symbol''),
             (''pharm_id'', row ''PharmGKB Accession Id''),
             (''ncbi_ids'', fst ncbi),
             (''hgnc_ids'', fst hgnc),
             (''ensembl_ids'', fst ensembl),
             (''alt_symbols'', fst alt_symb)]
      in case fill render (GENE_TEMPLATE cfg) [''dcid''] template_dict of
           Inl e \<Rightarrow> Inl e
         | Inr mcf \<Rightarrow>
             (case get_xref_mcf (row ''Cross-references'') (GENE_XREF_PROP_DICT cfg) of
                Inl e \<Rightarrow> Inl e
              | Inr xref \<Rightarrow>
                  Inr (mcf @ fst xref,
                       snd ncbi @ snd hgnc @ snd ensembl @ snd alt_symb @ snd xref)))"

fun write_gene_loop ::
  "renderer \<Rightarrow> config \<Rightarrow> row \<Rightarrow> out \<Rightarrow> string list \<Rightarrow> error + out" where
  "write_gene_loop render cfg row st [] = Inr st"
| "write_gene_loop render cfg row st (gene_dcid # rest) =
     (case get_gene_mcf render cfg row gene_dcid of
        Inl e \<Rightarrow> Inl e
      | Inr mcf \<Rightarrow>
          write_gene_loop render cfg row
            (st\<lparr>mcf_file := mcf_file st @ [fst mcf], stdout := stdout st @ snd mcf\<rparr>) rest)"

text \<open>The result is the output and the updated map \<open>pharm_to_dcid\<close>.\<close>

definition write_gene_row ::
  "renderer \<Rightarrow> config \<Rightarrow> out \<Rightarrow> row \<Rightarrow> (string \<rightharpoonup> gene_dcids)
     \<Rightarrow> error + out \<times> (string \<rightharpoonup> gene_dcids)" where
  "write_gene_row render cfg st row pharm_to_dcid =
     (let gene_dcids = get_gene_dcids (row ''Symbol'');
          pharm_to_dcid' = pharm_to_dcid(row ''PharmGKB Accession Id'' \<mapsto> gene_dcids)
      in case write_gene_loop render cfg row st (iter_dcids gene_dcids) of
           Inl e \<Rightarrow> Inl e
         | Inr st' \<Rightarrow> Inr (st', pharm_to_dcid'))"

subsection \<open>Drug nodes\<close>

definition get_drug_mcf ::
  "renderer \<Rightarrow> config \<Rightarrow> row \<Rightarrow> string \<Rightarrow> error + string \<times> string list" where
  "get_drug_mcf render cfg row drug_dcid =
     (let trade = format_text_list (row ''Trade Names'');
          rx_id = format_text_list (row ''RxNorm Identifiers'');
          atc = format_text_list (row ''ATC Identifiers'');
          pubchem = format_text_list (row ''PubChem Compound Identifiers'')
      in case get_compound_type (row ''Type'') of
           Inl e \<Rightarrow> Inl e
         | Inr compound_type \<Rightarrow>
             (case fill render (DRUG_TEMPLATE cfg) [''dcid'', ''type'']
                     (remove_empty
                        [(''dcid'', drug_dcid),
                         (''type'', compound_type),
                         (''dc_name'', remove_sub ''bio/'' drug_dcid),
                         (''name'', row ''Name''),
                         (''trade_names'', fst trade),
                         (''smiles'', row ''SMILES''),
                         (''inchi'', row ''InChI''),
                         (''inchi_key'', row ''InChI Key''),
                         (''pharm_id'', row ''PharmGKB Accession Id''),
                         (''rx_ids'', fst rx_id),
                         (''atc_ids'', fst atc),
                         (''pubchem_compound_ids'', fst pubchem)]) of
                Inl e \<Rightarrow> Inl e
              | Inr mcf \<Rightarrow>
                  (case get_xref_mcf (row ''Cross-references'') (DRUG_XREF_PROP_DICT cfg) of
                     Inl e \<Rightarrow> Inl e
                   | Inr xref \<Rightarrow>
                       Inr (mcf @ fst xref,
                            snd trade @ snd rx_id @ snd atc @ snd pubchem @ snd xref))))"

definition write_drug_row ::
  "renderer \<Rightarrow> config \<Rightarrow> out \<Rightarrow> row \<Rightarrow> (string \<rightharpoonup> string)
     \<Rightarrow> error + out \<times> (string \<rightharpoonup> string)" where
  "write_drug_row render cfg st row pharm_to_dcid =
     (let drug_dcid = get_drug_dcid row;
          pharm_to_dcid' = pharm_to_dcid(row ''PharmGKB Accession Id'' \<mapsto> drug_dcid)
      in case get_drug_mcf render cfg row drug_dcid of
           Inl e \<Rightarrow> Inl e
         | Inr mcf \<Rightarrow>
             Inr (st\<lparr>mcf_file := mcf_file st @ [fst mcf], stdout := stdout st @ snd mcf\<rparr>,
                  pharm_to_dcid'))"

subsection \<open>Relationship nodes\<close>

definition get_relation_mcf ::
  "renderer \<Rightarrow> config \<Rightarrow> row \<Rightarrow> string \<Rightarrow> string \<Rightarrow> error + string" where
  "get_relation_mcf render cfg row drug_dcid gene_dcid =
     (let drug_ref = remove_sub ''bio/'' drug_dcid;
          gene_ref = remove_sub ''bio/'' gene_dcid;
          pubmed = format_semicolon_list (row ''PMIDs'');
          pk_bool = format_bool (row ''PK'') ''PK'';
          pd_bool = format_bool (row ''PD'') ''PD''
      in case get_enum (row ''Association'') (ASSOCIATION_ENUM_DICT cfg) of
           Inl e \<Rightarrow> Inl e
         | Inr assoc_enum \<Rightarrow>
             (case get_enum (row ''Evidence'') (EVIDENCE_ENUM_DICT cfg) of
                Inl e \<Rightarrow> Inl e
              | Inr evid_enum \<Rightarrow>
                  fill render (RELATION_TEMPLATE cfg) [''dcid'', ''gene_dcid'', ''drug_dcid'']
                    (remove_empty
                       [(''dcid'', ''bio/CGA_'' @ drug_ref @ ''_'' @ gene_ref),
                        (''name'', ''CGA_'' @ drug_ref @ ''_'' @ gene_ref),
                        (''gene_dcid'', gene_dcid),
                        (''drug_dcid'', drug_dcid),
                        (''pubmed_ids'', pubmed),
                        (''pk_bool'', pk_bool),
                        (''pd_bool'', pd_bool),
                        (''assoc_enums'', assoc_enum),
                        (''evid_enums'', evid_enum)])))"

fun write_relation_loop ::
  "renderer \<Rightarrow> config \<Rightarrow> row \<Rightarrow> string \<Rightarrow> out \<Rightarrow> string list \<Rightarrow> error + out" where
  "write_relation_loop render cfg row drug_dcid st [] = Inr st"
| "write_relation_loop render cfg row drug_dcid st (gene_dcid # rest) =
     (case get_relation_mcf render cfg row drug_dcid gene_dcid of
        Inl e \<Rightarrow> Inl e
      | Inr mcf \<Rightarrow>
          write_relation_loop render cfg row drug_dcid
            (st\<lparr>mcf_file := mcf_file st @ [mcf]\<rparr>) rest)"

definition write_relation_row ::
  "renderer \<Rightarrow> config \<Rightarrow> out \<Rightarrow> row \<Rightarrow> bool \<Rightarrow> (string \<rightharpoonup> gene_dcids)
     \<Rightarrow> (string \<rightharpoonup> string) \<Rightarrow> error + out" where
  "write_relation_row render cfg st row drug_is_first genes_pharm_to_dcid drugs_pharm_to_dcid =
     (let drug_pharm = (if drug_is_first then row ''Entity1_id'' else row ''Entity2_id'');
          gene_pharm = (if drug_is_first then row ''Entity2_id'' else row ''Entity1_id'')
      in case drugs_pharm_to_dcid drug_pharm of
           None \<Rightarrow>
             Inr (st\<lparr>stdout := stdout st @ [''unrecognized drug pharm id: '' @ drug_pharm]\<rparr>)
         | Some drug_dcid \<Rightarrow>
             (case genes_pharm_to_dcid gene_pharm of
                None \<Rightarrow>
                  Inr (st\<lparr>stdout :=
                            stdout st @ [''unrecognized gene pharm id: '' @ gene_pharm]\<rparr>)
              | Some gene_dcids \<Rightarrow>
                  write_relation_loop render cfg row drug_dcid st (iter_dcids gene_dcids)))"

subsection \<open>Notions the properties are stated with\<close>

text \<open>
  The items of a compound-type list as \<open>get_compound_type\<close> reads them: the pieces
  between commas, without double quotes and surrounding white space.
\<close>

definition compound_items :: "string \<Rightarrow> string list" where
  "compound_items compound_types =
     map (\<lambda>t. strip (remove_char dq t)) (split_on CHR '','' compound_types)"

text \<open>The element one round of the loop of \<open>get_compound_type\<close> adds to \<open>types\<close>.\<close>

definition marker :: "string \<Rightarrow> string" where
  "marker t = (if strip (remove_char dq t) \<in> set drug_types then ''dcid:Drug''
               else ''dcid:ChemicalCompound'')"

text \<open>
  The \<open>dcid:\<close>-prefixed identifiers the table gives for a list of codes, one for each
  code in order; read only where every code is a key of the table.
\<close>

definition enum_dcids :: "(string \<rightharpoonup> string) \<Rightarrow> string list \<Rightarrow> string list" where
  "enum_dcids enum_dict keys = map (\<lambda>key. ''dcid:'' @ the (enum_dict key)) keys"

text \<open>
  The pairs of a cross-reference list as \<open>get_xref_mcf\<close> reads them: none for the
  empty string, otherwise the pieces between commas without double quotes and
  surrounding white space. The source name of a pair is what stands before its first
  colon; its value is everything after that colon, without surrounding white space.
  \<open>xref_line\<close> is the line written for a pair whose source name is a key.
\<close>

definition xref_pairs :: "string \<Rightarrow> string list" where
  "xref_pairs xrefs =
     (if xrefs = [] then []
      else map (\<lambda>t. strip (remove_char dq t)) (split_on CHR '','' xrefs))"

definition xref_source :: "string \<Rightarrow> string" where
  "xref_source pair = takeWhile (\<lambda>x. x \<noteq> CHR '':'') pair"

definition xref_value :: "string \<Rightarrow> string" where
  "xref_value pair = strip (drop 1 (dropWhile (\<lambda>x. x \<noteq> CHR '':'') pair))"

definition xref_line :: "(string \<rightharpoonup> string) \<Rightarrow> string \<Rightarrow> string" where
  "xref_line xref_to_label pair =
     the (xref_to_label (xref_source pair)) @ '': '' @ [dq] @ xref_value pair @ [dq] @ [CHR 0x0A]"

definition recognized :: "(string \<rightharpoonup> string) \<Rightarrow> string \<Rightarrow> bool" where
  "recognized xref_to_label pair = (xref_to_label (xref_source pair) \<noteq> None)"

text \<open>
  The PharmGKB ids of the two endpoints of a relationship row, as \<open>write_relation_row\<close>
  picks them from the columns \<open>Entity1_id\<close> and \<open>Entity2_id\<close>, and the warning it
  prints for a row with an endpoint that is not in its map.
\<close>

definition relation_drug_id :: "row \<Rightarrow> bool \<Rightarrow> string" where
  "relation_drug_id row drug_is_first =
     (if drug_is_first then row ''Entity1_id'' else row ''Entity2_id'')"

definition relation_gene_id :: "row \<Rightarrow> bool \<Rightarrow> string" where
  "relation_gene_id row drug_is_first =
     (if drug_is_first then row ''Entity2_id'' else row ''Entity1_id'')"

definition relation_warning ::
  "row \<Rightarrow> bool \<Rightarrow> (string \<rightharpoonup> string) \<Rightarrow> string" where
  "relation_warning row drug_is_first drugs_pharm_to_dcid =
     (if drugs_pharm_to_dcid (relation_drug_id row drug_is_first) = None
      then ''unrecognized drug pharm id: '' @ relation_drug_id row drug_is_first
      else ''unrecognized gene pharm id: '' @ relation_gene_id row drug_is_first)"

text \<open>
  Inputs for the examples: a renderer that writes the template and then one line for
  each item of the mapping, and a configuration with small tables.
\<close>

definition plain_render :: renderer where
  "plain_render template kv_map =
     template @ concat (map (\<lambda>kv. fst kv @ '': '' @ snd kv @ [CHR 0x0A]) kv_map)"

definition example_config :: config where
  "example_config =
     \<lparr>GENE_TEMPLATE = [], DRUG_TEMPLATE = [], RELATION_TEMPLATE = [],
      ASSOCIATION_ENUM_DICT = [''associated'' \<mapsto> ''AssocA'', ''ambiguous'' \<mapsto> ''AssocB''],
      EVIDENCE_ENUM_DICT = [''ClinicalAnnotation'' \<mapsto> ''EvidC''],
      GENE_XREF_PROP_DICT = [''HGNC'' \<mapsto> ''hgncID''],
      DRUG_XREF_PROP_DICT = [''DrugBank'' \<mapsto> ''drugBankID'']\<rparr>"



section \<open>Properties\<close>

subsection \<open>Identifier resolver\<close>

lemma usable_iff: "usable c \<longleftrightarrow> (\<not> isnull c \<and> truthy c)"
  by (cases c) simp_all

lemma find_usable: "find usable cs = Some c \<Longrightarrow> usable c"
  by (induction cs) (auto split: if_splits)

lemma fillna_usable: "usable c \<Longrightarrow> fillna c \<noteq> []"
  by (cases c) simp_all

text \<open>
  C1. \<open>merge_chembls\<close> returns the first of its three candidates, in the order
  PharmGKB ID, PubChem Compound ID, InChI, that is neither null nor empty, whatever the
  later candidates are, and \<open>None\<close> when there is none. For a row whose
  \<open>Chembl ID\<close> column holds that result after \<open>fillna('')\<close>, \<open>get_drug_dcid\<close> is
  \<open>bio/\<close> followed by that candidate, and \<open>bio/\<close> followed by the row's PharmGKB
  Accession Id when all three candidates are null or empty.
\<close>

theorem resolver_priority:
  "merge_chembls chembl1 chembl2 chembl3 =
     (case first_usable [chembl1, chembl2, chembl3] of Some c \<Rightarrow> c | None \<Rightarrow> PyNone)
   \<and> (row ''Chembl ID'' = fillna (merge_chembls chembl1 chembl2 chembl3) \<longrightarrow>
        get_drug_dcid row =
          (case first_usable [chembl1, chembl2, chembl3] of
             Some c \<Rightarrow> ''bio/'' @ fillna c
           | None \<Rightarrow> ''bio/'' @ row ''PharmGKB Accession Id''))"
proof -
  have m: "merge_chembls chembl1 chembl2 chembl3 =
      (case first_usable [chembl1, chembl2, chembl3] of Some c \<Rightarrow> c | None \<Rightarrow> PyNone)"
    by (simp add: merge_chembls_def first_usable_def usable_iff)
  show ?thesis
  proof (intro conjI impI)
    show "merge_chembls chembl1 chembl2 chembl3 =
      (case first_usable [chembl1, chembl2, chembl3] of Some c \<Rightarrow> c | None \<Rightarrow> PyNone)"
      by (rule m)
  next
    assume r: "row ''Chembl ID'' = fillna (merge_chembls chembl1 chembl2 chembl3)"
    show "get_drug_dcid row =
          (case first_usable [chembl1, chembl2, chembl3] of
             Some c \<Rightarrow> ''bio/'' @ fillna c
           | None \<Rightarrow> ''bio/'' @ row ''PharmGKB Accession Id'')"
    proof (cases "first_usable [chembl1, chembl2, chembl3]")
      case None
      then show ?thesis using r m by (simp add: get_drug_dcid_def)
    next
      case (Some c)
      then have "usable c" unfolding first_usable_def by (rule find_usable)
      then have "fillna c \<noteq> []" by (rule fillna_usable)
      then show ?thesis using r m Some by (simp add: get_drug_dcid_def)
    qed
  qed
qed

theorem resolver_priority_witness:
  "merge_chembls (Str []) NaN (Str ''CHEMBL25'') = Str ''CHEMBL25''
   \<and> get_drug_dcid ((\<lambda>c. [])(''Chembl ID'' := ''CHEMBL25'', ''PharmGKB Accession Id'' := ''PA1''))
       = ''bio/CHEMBL25''
   \<and> merge_chembls (Str ''CHEMBL1'') (Str ''CHEMBL2'') NaN = Str ''CHEMBL1''
   \<and> merge_chembls NaN (Str []) PyNone = PyNone
   \<and> get_drug_dcid ((\<lambda>c. [])(''PharmGKB Accession Id'' := ''PA1'')) = ''bio/PA1''"
  using resolver_priority [of "Str []" NaN "Str ''CHEMBL25''"
          "(\<lambda>c. [])(''Chembl ID'' := ''CHEMBL25'', ''PharmGKB Accession Id'' := ''PA1'')"]
        resolver_priority [of "Str ''CHEMBL1''" "Str ''CHEMBL2''" NaN "\<lambda>c. []"]
        resolver_priority [of NaN "Str []" PyNone "(\<lambda>c. [])(''PharmGKB Accession Id'' := ''PA1'')"]
  by (simp add: first_usable_def)

subsection \<open>Quoted-list formatter\<close>

lemmas string_ops =
  count_char_def remove_char_def strip_def strip_char_def ws_prefix_def whitespace_def dq_def


lemma step_unexpected:
  "2 < count_char dq t \<Longrightarrow>
   format_step text_list st t = st\<lparr>printed := printed st @ [''unexpected format: '' @ text_list]\<rparr>"
  by (simp add: format_step_def)

lemma step_expected:
  "\<not> 2 < count_char dq t \<Longrightarrow> printed (format_step text_list st t) = printed st"
  by (simp add: format_step_def)

lemma loop_printed:
  "printed (foldl (format_step text_list) st toks) =
     printed st @ replicate (length (filter (\<lambda>t. 2 < count_char dq t) toks))
                    (''unexpected format: '' @ text_list)"
proof (induction toks arbitrary: st)
  case Nil
  then show ?case by simp
next
  case (Cons t toks)
  show ?case
  proof (cases "2 < count_char dq t")
    case True
    then show ?thesis
      by (simp add: Cons.IH step_unexpected replicate_append_same)
  next
    case False
    then show ?thesis
      by (simp add: Cons.IH step_expected)
  qed
qed

lemma step_cong:
  "formatted_str a = formatted_str b \<Longrightarrow> joining a = joining b \<Longrightarrow>
   formatted_str (format_step text_list a t) = formatted_str (format_step text_list b t)
   \<and> joining (format_step text_list a t) = joining (format_step text_list b t)"
  by (cases "joining b = []"; cases "count_char dq t = 0"; cases "count_char dq t = 1";
      cases "count_char dq t = 2"; simp add: format_step_def)

lemma loop_cong:
  "formatted_str a = formatted_str b \<Longrightarrow> joining a = joining b \<Longrightarrow>
   formatted_str (foldl (format_step text_list) a toks) = formatted_str (foldl (format_step text_list) b toks)"
proof (induction toks arbitrary: a b)
  case Nil
  then show ?case by simp
next
  case (Cons t toks)
  have "formatted_str (foldl (format_step text_list) (format_step text_list a t) toks) =
        formatted_str (foldl (format_step text_list) (format_step text_list b t) toks)"
    using step_cong [OF Cons.prems, of text_list t] by (intro Cons.IH) simp_all
  then show ?case by simp
qed

lemma loop_drop:
  assumes "2 < count_char dq t"
  shows "formatted_str (format_loop text_list (pre @ [t] @ post)) =
         formatted_str (format_loop text_list (pre @ post))"
proof -
  let ?s = "foldl (format_step text_list) \<lparr>formatted_str = [], joining = [], printed = []\<rparr> pre"
  have "formatted_str (foldl (format_step text_list) (format_step text_list ?s t) post) =
        formatted_str (foldl (format_step text_list) ?s post)"
    by (rule loop_cong) (simp_all add: step_unexpected [OF assms])
  then show ?thesis by (simp add: format_loop_def)
qed

text \<open>
  C8. \<open>format_text_list\<close> returns on every string: no operation in it raises. The
  empty string gives the empty string. A piece between commas with more than two
  double quotes is dropped: the result is what the loop builds from the other pieces
  alone, and the printed lines are one \<open>unexpected format\<close> message for each such
  piece.
\<close>

theorem format_text_list_total:
  "format_text_list [] = ([], [])
   \<and> (text_list \<noteq> [] \<longrightarrow>
        snd (format_text_list text_list) =
          replicate (length (filter (\<lambda>t. 2 < count_char dq t) (split_on CHR '','' text_list)))
            (''unexpected format: '' @ text_list))
   \<and> (split_on CHR '','' text_list = pre @ [t] @ post \<and> 2 < count_char dq t \<longrightarrow>
        fst (format_text_list text_list) =
          strip_char CHR '','' (formatted_str (format_loop text_list (pre @ post))))"
proof (intro conjI impI)
  show "format_text_list [] = ([], [])"
    by (simp add: format_text_list_def)
next
  assume "text_list \<noteq> []"
  then show "snd (format_text_list text_list) =
          replicate (length (filter (\<lambda>t. 2 < count_char dq t) (split_on CHR '','' text_list)))
            (''unexpected format: '' @ text_list)"
    by (simp add: format_text_list_def format_loop_def loop_printed Let_def)
next
  assume a: "split_on CHR '','' text_list = pre @ [t] @ post \<and> 2 < count_char dq t"
  have "text_list \<noteq> []"
  proof
    assume "text_list = []"
    with a have "[[]] = pre @ [t] @ post" and "2 < count_char dq t" by simp_all
    then show False by (auto simp: Cons_eq_append_conv count_char_def)
  qed
  then show "fst (format_text_list text_list) =
          strip_char CHR '','' (formatted_str (format_loop text_list (pre @ post)))"
    using a loop_drop [of t text_list pre post] by (simp add: format_text_list_def Let_def)
qed

theorem format_text_list_total_witness:
  \<open>format_text_list ''a,"b"c",d'' = (''"a","d"'', [''unexpected format: a,"b"c",d''])\<close>
proof -
  have s: \<open>split_on CHR '','' ''a,"b"c",d'' = [''a''] @ [''"b"c"''] @ [''d'']
           \<and> 2 < count_char dq ''"b"c"''\<close>
    by (simp add: string_ops)
  have n: \<open>''a,"b"c",d'' \<noteq> []\<close> by simp
  have l: \<open>strip_char CHR '','' (formatted_str (format_loop ''a,"b"c",d'' ([''a''] @ [''d''])))
           = ''"a","d"''\<close>
    by (simp add: format_loop_def format_step_def string_ops)
  have c: \<open>length (filter (\<lambda>t. 2 < count_char dq t) (split_on CHR '','' ''a,"b"c",d'')) = 1\<close>
    by (simp add: string_ops)
  note T = format_text_list_total [of \<open>''a,"b"c",d''\<close> \<open>[''a'']\<close> \<open>''"b"c"''\<close> \<open>[''d'']\<close>]
  have \<open>snd (format_text_list ''a,"b"c",d'') = replicate 1 (''unexpected format: '' @ ''a,"b"c",d'')\<close>
    using T [THEN conjunct2, THEN conjunct1, THEN mp, OF n] by (simp only: c)
  moreover have \<open>fst (format_text_list ''a,"b"c",d'') = ''"a","d"''\<close>
    using T [THEN conjunct2, THEN conjunct2, THEN mp, OF s] by (simp only: l)
  ultimately show ?thesis by (simp add: prod_eq_iff)
qed

subsection \<open>Compound types\<close>

lemma split_on_not_Nil: "split_on c s \<noteq> []"
  by (induction s) (auto split: list.splits)

lemma types_add_marker: "types_add types t = List.insert (marker t) types"
  by (simp add: types_add_def marker_def)

lemma set_types: "set (foldl types_add acc toks) = set acc \<union> marker ` set toks"
  by (induction toks arbitrary: acc) (auto simp: types_add_marker)

lemma distinct_types: "distinct acc \<Longrightarrow> distinct (foldl types_add acc toks)"
  by (induction toks arbitrary: acc) (simp_all add: types_add_marker)

lemma image_single:
  assumes "S \<noteq> {}" and "\<forall>t \<in> S. f t = m"
  shows "f ` S = {m}"
proof -
  from assms(1) obtain s where "s \<in> S" by blast
  with assms(2) have "f s = m" by blast
  with \<open>s \<in> S\<close> have "m \<in> f ` S" by blast
  moreover from assms(2) have "f ` S \<subseteq> {m}" by blast
  ultimately show ?thesis by blast
qed

lemma singleton_types:
  assumes "distinct ts" and "set ts = {m}"
  shows "ts = [m]"
proof -
  have "length ts = card (set ts)" using assms(1) by (simp add: distinct_card)
  then have "length ts = 1" using assms(2) by simp
  then obtain x where "ts = [x]" by (cases ts) auto
  with assms(2) show ?thesis by simp
qed

lemma pair_types:
  assumes "distinct ts" and "set ts = {m, n}" and "m \<noteq> n"
  shows "length ts = 2"
proof -
  have "length ts = card (set ts)" using assms(1) by (simp add: distinct_card)
  then show ?thesis using assms(2,3) by simp
qed

text \<open>
  C5. An item of the list is a piece between commas, read without double quotes and
  surrounding white space. If every item is one of \<open>Drug\<close>, \<open>Drug Class\<close> and
  \<open>Prodrug\<close>, \<open>get_compound_type\<close> returns the one marker \<open>dcid:Drug\<close>; if no
  item is, the one marker \<open>dcid:ChemicalCompound\<close>; if some are and some are not,
  both markers, each once and in a fixed order whatever the order of the items:
  \<open>dcs:ChemicalCompound,dcs:Drug\<close>. It never raises.
\<close>

theorem compound_type_markers:
  "((\<forall>i \<in> set (compound_items compound_types). i \<in> set drug_types) \<longrightarrow>
      get_compound_type compound_types = Inr ''dcid:Drug'')
   \<and> ((\<forall>i \<in> set (compound_items compound_types). i \<notin> set drug_types) \<longrightarrow>
      get_compound_type compound_types = Inr ''dcid:ChemicalCompound'')
   \<and> ((\<exists>i \<in> set (compound_items compound_types). i \<in> set drug_types) \<and>
       (\<exists>i \<in> set (compound_items compound_types). i \<notin> set drug_types) \<longrightarrow>
      get_compound_type compound_types = Inr ''dcs:ChemicalCompound,dcs:Drug'')"
proof -
  let ?toks = "split_on CHR '','' compound_types"
  let ?types = "foldl types_add [] ?toks"
  have d: "distinct ?types" by (rule distinct_types) simp
  have s: "set ?types = marker ` set ?toks" by (simp add: set_types)
  have ne: "set ?toks \<noteq> {}" by (simp add: split_on_not_Nil)
  have drug: "get_compound_type compound_types = Inr ''dcid:Drug''"
    if "\<forall>i \<in> set (compound_items compound_types). i \<in> set drug_types"
  proof -
    from that have "\<forall>t \<in> set ?toks. marker t = ''dcid:Drug''"
      by (simp add: compound_items_def marker_def)
    with ne have "marker ` set ?toks = {''dcid:Drug''}" by (rule image_single)
    with s d have "?types = [''dcid:Drug'']" by (simp add: singleton_types)
    then show ?thesis by (simp add: get_compound_type_def)
  qed
  have chem: "get_compound_type compound_types = Inr ''dcid:ChemicalCompound''"
    if "\<forall>i \<in> set (compound_items compound_types). i \<notin> set drug_types"
  proof -
    from that have "\<forall>t \<in> set ?toks. marker t = ''dcid:ChemicalCompound''"
      by (simp add: compound_items_def marker_def)
    with ne have "marker ` set ?toks = {''dcid:ChemicalCompound''}" by (rule image_single)
    with s d have "?types = [''dcid:ChemicalCompound'']" by (simp add: singleton_types)
    then show ?thesis by (simp add: get_compound_type_def)
  qed
  have both: "get_compound_type compound_types = Inr ''dcs:ChemicalCompound,dcs:Drug''"
    if "\<exists>i \<in> set (compound_items compound_types). i \<in> set drug_types"
      and "\<exists>i \<in> set (compound_items compound_types). i \<notin> set drug_types"
  proof -
    from that(1) obtain t where "t \<in> set ?toks" "marker t = ''dcid:Drug''"
      by (auto simp: compound_items_def marker_def)
    moreover from that(2) obtain u where "u \<in> set ?toks" "marker u = ''dcid:ChemicalCompound''"
      by (auto simp: compound_items_def marker_def)
    moreover have "marker ` set ?toks \<subseteq> {''dcid:Drug'', ''dcid:ChemicalCompound''}"
      by (auto simp: marker_def)
    ultimately have "marker ` set ?toks = {''dcid:Drug'', ''dcid:ChemicalCompound''}"
      by (metis image_eqI insert_subset subset_antisym empty_subsetI)
    with s d have "length ?types = 2" by (simp add: pair_types)
    then show ?thesis by (simp add: get_compound_type_def)
  qed
  from drug chem both show ?thesis by blast
qed

theorem compound_type_markers_witness:
  \<open>get_compound_type ''Drug,Prodrug'' = Inr ''dcid:Drug''
   \<and> get_compound_type ''Metabolite'' = Inr ''dcid:ChemicalCompound''
   \<and> get_compound_type ''Drug,Metabolite'' = Inr ''dcs:ChemicalCompound,dcs:Drug''
   \<and> get_compound_type ''"Metabolite", "Drug Class"'' = Inr ''dcs:ChemicalCompound,dcs:Drug''\<close>
proof -
  have 1: "compound_items ''Drug,Prodrug'' = [''Drug'', ''Prodrug'']"
    by (simp add: compound_items_def string_ops)
  have 2: "compound_items ''Metabolite'' = [''Metabolite'']"
    by (simp add: compound_items_def string_ops)
  have 3: "compound_items ''Drug,Metabolite'' = [''Drug'', ''Metabolite'']"
    by (simp add: compound_items_def string_ops)
  have 4: \<open>compound_items ''"Metabolite", "Drug Class"'' = [''Metabolite'', ''Drug Class'']\<close>
    by (simp add: compound_items_def string_ops)
  show ?thesis
    using compound_type_markers [of "''Drug,Prodrug''"]
      compound_type_markers [of "''Metabolite''"]
      compound_type_markers [of "''Drug,Metabolite''"]
      compound_type_markers [of \<open>''"Metabolite", "Drug Class"''\<close>]
    by (simp add: 1 2 3 4 drug_types_def)
qed

subsection \<open>Enum translator\<close>

lemma get_enum_loop_eq:
  "get_enum_loop enum_dict acc keys =
     (case find (\<lambda>key. enum_dict key = None) keys of
        Some key \<Rightarrow> Inl (KeyError key)
      | None \<Rightarrow> Inr (acc @ concat (map (\<lambda>d. d @ '','') (enum_dcids enum_dict keys))))"
proof (induction keys arbitrary: acc)
  case Nil
  then show ?case by (simp add: enum_dcids_def)
next
  case (Cons key keys)
  show ?case
  proof (cases "enum_dict key")
    case None
    then show ?thesis by simp
  next
    case (Some v)
    then show ?thesis by (simp add: Cons.IH enum_dcids_def split: option.splits)
  qed
qed

lemma join_on_Cons: "join_on c (x # xs) = x @ (if xs = [] then [] else c # join_on c xs)"
  by (cases xs) simp_all

lemma concat_join: "xs \<noteq> [] \<Longrightarrow> concat (map (\<lambda>d. d @ [c]) xs) = join_on c xs @ [c]"
proof (induction xs)
  case Nil
  then show ?case by simp
next
  case (Cons x xs)
  then show ?case by (cases xs) simp_all
qed

lemma last_join_on:
  "xs \<noteq> [] \<Longrightarrow> last xs \<noteq> [] \<Longrightarrow>
   join_on c xs \<noteq> [] \<and> last (join_on c xs) = last (last xs)"
  by (induction c xs rule: join_on.induct) simp_all

lemma strip_char_snoc:
  assumes "s \<noteq> []" and "hd s \<noteq> c"
  shows "strip_char c (s @ [c]) = strip_char c s"
proof -
  from assms obtain x xs where s: "s = x # xs" and "x \<noteq> c" by (cases s) auto
  then show ?thesis by (simp add: strip_char_def)
qed

lemma strip_char_id:
  assumes "s \<noteq> []" and "hd s \<noteq> c" and "last s \<noteq> c"
  shows "strip_char c s = s"
proof -
  from assms(1,2) obtain x xs where s: "s = x # xs" and "x \<noteq> c" by (cases s) auto
  then have "dropWhile (\<lambda>y. y = c) s = s" by simp
  moreover from assms(1,3) have "dropWhile (\<lambda>y. y = c) (rev s) = rev s"
    by (cases s rule: rev_cases) simp_all
  ultimately show ?thesis by (simp add: strip_char_def)
qed

lemma hd_join_enum:
  assumes "keys \<noteq> []"
  shows "join_on c (enum_dcids enum_dict keys) \<noteq> [] \<and> hd (join_on c (enum_dcids enum_dict keys)) = CHR ''d''"
proof -
  from assms obtain k ks where "keys = k # ks" by (cases keys) auto
  then show ?thesis by (simp add: enum_dcids_def join_on_Cons)
qed

lemma get_enum_eq:
  assumes "key_list \<noteq> []"
  shows "get_enum key_list enum_dict =
           (case find (\<lambda>key. enum_dict key = None) (split_on CHR '','' key_list) of
              Some key \<Rightarrow> Inl (KeyError key)
            | None \<Rightarrow>
                Inr (strip_char CHR '',''
                       (join_on CHR '','' (enum_dcids enum_dict (split_on CHR '','' key_list)))))
         \<and> (last (last (enum_dcids enum_dict (split_on CHR '','' key_list))) \<noteq> CHR '','' \<longrightarrow>
              strip_char CHR '','' (join_on CHR '','' (enum_dcids enum_dict (split_on CHR '','' key_list)))
                = join_on CHR '','' (enum_dcids enum_dict (split_on CHR '','' key_list)))"
proof -
  let ?keys = "split_on CHR '','' key_list"
  let ?j = "join_on CHR '','' (enum_dcids enum_dict ?keys)"
  have ne: "?keys \<noteq> []" by (rule split_on_not_Nil)
  then have ne': "enum_dcids enum_dict ?keys \<noteq> []" by (simp add: enum_dcids_def)
  have hd: "?j \<noteq> []" "hd ?j \<noteq> CHR '',''"
    using hd_join_enum [OF ne, of "CHR '',''" enum_dict] by simp_all
  have "strip_char CHR '','' (concat (map (\<lambda>d. d @ '','') (enum_dcids enum_dict ?keys)))
          = strip_char CHR '','' ?j"
    using concat_join [OF ne', of "CHR '',''"] strip_char_snoc [OF hd] by simp
  then have 1: "get_enum key_list enum_dict =
           (case find (\<lambda>key. enum_dict key = None) ?keys of
              Some key \<Rightarrow> Inl (KeyError key)
            | None \<Rightarrow> Inr (strip_char CHR '','' ?j))"
    using assms by (simp add: get_enum_def get_enum_loop_eq split: option.splits)
  have 2: "strip_char CHR '','' ?j = ?j"
    if "last (last (enum_dcids enum_dict ?keys)) \<noteq> CHR '',''"
  proof -
    have "last (enum_dcids enum_dict ?keys) \<noteq> []"
      using ne by (simp add: enum_dcids_def last_map)
    then have "last ?j = last (last (enum_dcids enum_dict ?keys))"
      using ne' by (simp add: last_join_on)
    with that hd show ?thesis by (simp add: strip_char_id)
  qed
  from 1 2 show ?thesis by blast
qed

text \<open>
  C6. For a non-empty code list: if some code is not a key of the table, \<open>get_enum\<close>
  fails with the \<open>KeyError\<close> of such a code (the first one), and drops none silently.
  If every code is a key, the result is the \<open>dcid:\<close>-prefixed identifiers of the
  codes, in order, joined by commas, after \<open>strip(',')\<close>; that final strip changes
  nothing unless the last identifier ends with a comma, so for a table of identifiers
  without commas the result is the comma-separated list itself.
\<close>

theorem enum_translation:
  assumes "key_list \<noteq> []"
  shows "((\<exists>key \<in> set (split_on CHR '','' key_list). enum_dict key = None) \<longrightarrow>
            (\<exists>key \<in> set (split_on CHR '','' key_list).
               enum_dict key = None \<and> get_enum key_list enum_dict = Inl (KeyError key)))
         \<and> ((\<forall>key \<in> set (split_on CHR '','' key_list). enum_dict key \<noteq> None) \<longrightarrow>
              get_enum key_list enum_dict =
                Inr (strip_char CHR '',''
                       (join_on CHR '','' (enum_dcids enum_dict (split_on CHR '','' key_list))))
              \<and> (last (last (enum_dcids enum_dict (split_on CHR '','' key_list))) \<noteq> CHR '','' \<longrightarrow>
                   get_enum key_list enum_dict =
                     Inr (join_on CHR '','' (enum_dcids enum_dict (split_on CHR '','' key_list)))))"
proof (intro conjI impI)
  let ?keys = "split_on CHR '','' key_list"
  assume "\<exists>key \<in> set ?keys. enum_dict key = None"
  then obtain key where "find (\<lambda>key. enum_dict key = None) ?keys = Some key"
    by (cases "find (\<lambda>key. enum_dict key = None) ?keys") (auto simp: find_None_iff)
  moreover from this have "key \<in> set ?keys" and "enum_dict key = None"
    by (auto simp: find_Some_iff)
  ultimately show "\<exists>key \<in> set ?keys.
      enum_dict key = None \<and> get_enum key_list enum_dict = Inl (KeyError key)"
    using get_enum_eq [OF assms, of enum_dict] by auto
next
  let ?keys = "split_on CHR '','' key_list"
  assume "\<forall>key \<in> set ?keys. enum_dict key \<noteq> None"
  then have "find (\<lambda>key. enum_dict key = None) ?keys = None"
    by (simp add: find_None_iff)
  then show "get_enum key_list enum_dict =
      Inr (strip_char CHR '','' (join_on CHR '','' (enum_dcids enum_dict ?keys)))"
    using get_enum_eq [OF assms, of enum_dict] by simp
next
  let ?keys = "split_on CHR '','' key_list"
  assume "\<forall>key \<in> set ?keys. enum_dict key \<noteq> None"
    and "last (last (enum_dcids enum_dict ?keys)) \<noteq> CHR '',''"
  then have "find (\<lambda>key. enum_dict key = None) ?keys = None"
    and "strip_char CHR '','' (join_on CHR '','' (enum_dcids enum_dict ?keys))
          = join_on CHR '','' (enum_dcids enum_dict ?keys)"
    using get_enum_eq [OF assms, of enum_dict] by (simp_all add: find_None_iff)
  then show "get_enum key_list enum_dict = Inr (join_on CHR '','' (enum_dcids enum_dict ?keys))"
    using get_enum_eq [OF assms, of enum_dict] by simp
qed

theorem enum_translation_witness:
  "get_enum ''associated,ambiguous''
     [''associated'' \<mapsto> ''AssocA'', ''ambiguous'' \<mapsto> ''AssocB''] = Inr ''dcid:AssocA,dcid:AssocB''
   \<and> get_enum ''associated,unknown''
     [''associated'' \<mapsto> ''AssocA'', ''ambiguous'' \<mapsto> ''AssocB''] = Inl (KeyError ''unknown'')"
proof -
  have n: "''associated,ambiguous'' \<noteq> []" "''associated,unknown'' \<noteq> []" by simp_all
  show ?thesis
    using enum_translation [OF n(1), of "[''associated'' \<mapsto> ''AssocA'', ''ambiguous'' \<mapsto> ''AssocB'']"]
      enum_translation [OF n(2), of "[''associated'' \<mapsto> ''AssocA'', ''ambiguous'' \<mapsto> ''AssocB'']"]
    by (simp add: enum_dcids_def strip_char_def)
qed

subsection \<open>Cross-reference translator\<close>

lemma join_split: "join_on c (split_on c s) = s"
proof (induction s)
  case Nil
  then show ?case by simp
next
  case (Cons x xs)
  obtain t ts where ts: "split_on c xs = t # ts"
    using split_on_not_Nil [of c xs] by (cases "split_on c xs") auto
  with Cons show ?case by (auto simp: join_on_Cons split: if_splits)
qed

lemma split_on_shape:
  "split_on c s = takeWhile (\<lambda>x. x \<noteq> c) s # tl (split_on c s)
   \<and> join_on c (tl (split_on c s)) = drop 1 (dropWhile (\<lambda>x. x \<noteq> c) s)"
proof (induction s)
  case Nil
  then show ?case by simp
next
  case (Cons x xs)
  obtain t ts where ts: "split_on c xs = t # ts"
    using split_on_not_Nil [of c xs] by (cases "split_on c xs") auto
  show ?case
  proof (cases "x = c")
    case True
    then show ?thesis using join_split [of c xs] by simp
  next
    case False
    then show ?thesis using Cons ts by simp
  qed
qed

lemma xref_step_eq:
  "xref_step xrefs xref_to_label acc xref =
     Inr (if recognized xref_to_label (strip (remove_char dq xref))
          then (fst acc @ xref_line xref_to_label (strip (remove_char dq xref)), snd acc)
          else (fst acc, snd acc @ [''unexpected format in gene xrefs:'' @ xrefs]))"
proof -
  let ?p = "strip (remove_char dq xref)"
  obtain rest where r: "split_on CHR '':'' ?p = xref_source ?p # rest"
    and j: "join_on CHR '':'' rest = drop 1 (dropWhile (\<lambda>x. x \<noteq> CHR '':'') ?p)"
    using split_on_shape [of "CHR '':''" ?p] by (auto simp: xref_source_def)
  show ?thesis
    by (cases "xref_to_label (xref_source ?p)")
       (simp_all add: xref_step_def r j recognized_def xref_line_def xref_value_def)
qed

lemma xref_loop_eq:
  "xref_loop xrefs xref_to_label acc toks =
     Inr (fst acc @ concat (map (xref_line xref_to_label)
                          (filter (recognized xref_to_label)
                             (map (\<lambda>t. strip (remove_char dq t)) toks))),
          snd acc @ replicate
                     (length (filter (\<lambda>p. \<not> recognized xref_to_label p)
                                (map (\<lambda>t. strip (remove_char dq t)) toks)))
                     (''unexpected format in gene xrefs:'' @ xrefs))"
proof (induction toks arbitrary: acc)
  case Nil
  then show ?case by simp
next
  case (Cons t toks)
  show ?case
    by (cases "recognized xref_to_label (strip (remove_char dq t))")
       (simp_all add: xref_step_eq Cons.IH replicate_append_same)
qed

text \<open>
  C7. \<open>get_xref_mcf\<close> never raises. Its text is one line \<open>label: "value"\<close> for each
  pair whose source name is a key of the mapping, in order, where the value is
  everything after the first colon of the pair (further colons are kept) without
  surrounding white space; every other pair adds nothing to the text and prints one
  \<open>unexpected format\<close> line, and the pairs after it are translated all the same.
\<close>

theorem xref_translation:
  "get_xref_mcf xrefs xref_to_label =
     Inr (concat (map (xref_line xref_to_label)
                    (filter (recognized xref_to_label) (xref_pairs xrefs))),
          replicate (length (filter (\<lambda>p. \<not> recognized xref_to_label p) (xref_pairs xrefs)))
            (''unexpected format in gene xrefs:'' @ xrefs))"
  by (simp add: get_xref_mcf_def xref_pairs_def xref_loop_eq)

theorem xref_translation_witness:
  \<open>get_xref_mcf ''"src:http://x:1","foo:2", src: a b '' [''src'' \<mapsto> ''lbl''] =
     Inr (''lbl: "http://x:1"'' @ [CHR 0x0A] @ ''lbl: "a b"'' @ [CHR 0x0A],
          [''unexpected format in gene xrefs:"src:http://x:1","foo:2", src: a b ''])\<close>
proof -
  have p: \<open>xref_pairs ''"src:http://x:1","foo:2", src: a b '' =
             [''src:http://x:1'', ''foo:2'', ''src: a b'']\<close>
    by (simp add: xref_pairs_def string_ops)
  show ?thesis
    using xref_translation [of \<open>''"src:http://x:1","foo:2", src: a b ''\<close> "[''src'' \<mapsto> ''lbl'']"]
    by (simp add: p recognized_def xref_source_def xref_line_def xref_value_def string_ops)
qed

subsection \<open>Relationship rows with an unknown endpoint\<close>

text \<open>
  C3. If the PharmGKB id of the drug or of the gene of a relationship row is not in its
  map, \<open>write_relation_row\<close> returns without raising, writes nothing to the output file
  and prints one warning. Hence a row after which the output file has changed has both
  its endpoints in the maps.
\<close>

theorem relation_skipped:
  "(drugs_pharm_to_dcid (relation_drug_id row drug_is_first) = None
      \<or> genes_pharm_to_dcid (relation_gene_id row drug_is_first) = None \<longrightarrow>
    write_relation_row render cfg st row drug_is_first genes_pharm_to_dcid drugs_pharm_to_dcid =
      Inr (st\<lparr>stdout := stdout st @ [relation_warning row drug_is_first drugs_pharm_to_dcid]\<rparr>))
   \<and> (\<forall>st'. write_relation_row render cfg st row drug_is_first genes_pharm_to_dcid
                drugs_pharm_to_dcid = Inr st' \<and> mcf_file st' \<noteq> mcf_file st \<longrightarrow>
          drugs_pharm_to_dcid (relation_drug_id row drug_is_first) \<noteq> None
          \<and> genes_pharm_to_dcid (relation_gene_id row drug_is_first) \<noteq> None)"
proof -
  have skip: "write_relation_row render cfg st row drug_is_first genes_pharm_to_dcid
        drugs_pharm_to_dcid =
      Inr (st\<lparr>stdout := stdout st @ [relation_warning row drug_is_first drugs_pharm_to_dcid]\<rparr>)"
    if "drugs_pharm_to_dcid (relation_drug_id row drug_is_first) = None
      \<or> genes_pharm_to_dcid (relation_gene_id row drug_is_first) = None"
  proof (cases "drugs_pharm_to_dcid (relation_drug_id row drug_is_first)")
    case None
    then show ?thesis
      by (simp add: write_relation_row_def relation_warning_def relation_drug_id_def)
  next
    case (Some d)
    with that have "genes_pharm_to_dcid (relation_gene_id row drug_is_first) = None" by simp
    with Some show ?thesis
      by (simp add: write_relation_row_def relation_warning_def relation_drug_id_def
          relation_gene_id_def)
  qed
  have only: "drugs_pharm_to_dcid (relation_drug_id row drug_is_first) \<noteq> None
          \<and> genes_pharm_to_dcid (relation_gene_id row drug_is_first) \<noteq> None"
    if "write_relation_row render cfg st row drug_is_first genes_pharm_to_dcid
          drugs_pharm_to_dcid = Inr st'" and "mcf_file st' \<noteq> mcf_file st" for st'
  proof (rule ccontr)
    assume "\<not> ?thesis"
    then have "st' = st\<lparr>stdout := stdout st @ [relation_warning row drug_is_first drugs_pharm_to_dcid]\<rparr>"
      using skip that(1) by auto
    with that(2) show False by simp
  qed
  from skip only show ?thesis by blast
qed

theorem relation_skipped_witness:
  "write_relation_row plain_render example_config \<lparr>mcf_file = [''block''], stdout = []\<rparr>
     ((\<lambda>c. [])(''Entity1_id'' := ''PA100'', ''Entity2_id'' := ''PA200'')) True
     [''PA200'' \<mapsto> Dcids [''bio/hg19_ABC'', ''bio/hg38_ABC'']] Map.empty
   = Inr \<lparr>mcf_file = [''block''], stdout = [''unrecognized drug pharm id: PA100'']\<rparr>
   \<and> write_relation_row plain_render example_config \<lparr>mcf_file = [''block''], stdout = []\<rparr>
     ((\<lambda>c. [])(''Entity1_id'' := ''PA100'', ''Entity2_id'' := ''PA200'')) False
     [''PA200'' \<mapsto> Dcids [''bio/hg19_ABC'', ''bio/hg38_ABC'']] [''PA200'' \<mapsto> ''bio/CHEMBL1'']
   = Inr \<lparr>mcf_file = [''block''], stdout = [''unrecognized gene pharm id: PA100'']\<rparr>"
  using relation_skipped [of Map.empty "(\<lambda>c. [])(''Entity1_id'' := ''PA100'', ''Entity2_id'' := ''PA200'')"
      True "[''PA200'' \<mapsto> Dcids [''bio/hg19_ABC'', ''bio/hg38_ABC'']]" plain_render example_config
      "\<lparr>mcf_file = [''block''], stdout = []\<rparr>"]
    relation_skipped [of "[''PA200'' \<mapsto> ''bio/CHEMBL1'']"
      "(\<lambda>c. [])(''Entity1_id'' := ''PA100'', ''Entity2_id'' := ''PA200'')"
      False "[''PA200'' \<mapsto> Dcids [''bio/hg19_ABC'', ''bio/hg38_ABC'']]" plain_render example_config
      "\<lparr>mcf_file = [''block''], stdout = []\<rparr>"]
  by (simp add: relation_warning_def relation_drug_id_def relation_gene_id_def)

subsection \<open>Genes without a symbol\<close>

text \<open>
  C9. For a gene row with an empty symbol, \<open>get_gene_dcids\<close> returns the empty string
  instead of a list, and \<open>write_gene_row\<close> writes no block and still binds the row's
  PharmGKB Accession Id to that empty string in the gene map. A relationship row whose
  gene is bound to the empty string writes no block; when its drug is in the drug map
  it passes both membership tests, so that nothing is printed either.
\<close>

theorem empty_symbol_gene:
  assumes "row ''Symbol'' = []"
  shows "get_gene_dcids (row ''Symbol'') = EmptyStr
   \<and> write_gene_row render cfg st row pharm_to_dcid =
       Inr (st, pharm_to_dcid(row ''PharmGKB Accession Id'' \<mapsto> EmptyStr))
   \<and> (genes (row ''PharmGKB Accession Id'') = Some EmptyStr
       \<and> relation_gene_id rel_row drug_is_first = row ''PharmGKB Accession Id'' \<longrightarrow>
         (\<exists>st'. write_relation_row render cfg st2 rel_row drug_is_first genes drugs = Inr st'
                \<and> mcf_file st' = mcf_file st2)
         \<and> (drugs (relation_drug_id rel_row drug_is_first) \<noteq> None \<longrightarrow>
              write_relation_row render cfg st2 rel_row drug_is_first genes drugs = Inr st2))"
proof (intro conjI impI)
  show "get_gene_dcids (row ''Symbol'') = EmptyStr"
    using assms by (simp add: get_gene_dcids_def)
next
  show "write_gene_row render cfg st row pharm_to_dcid =
       Inr (st, pharm_to_dcid(row ''PharmGKB Accession Id'' \<mapsto> EmptyStr))"
    using assms by (simp add: write_gene_row_def get_gene_dcids_def)
next
  assume a: "genes (row ''PharmGKB Accession Id'') = Some EmptyStr
         \<and> relation_gene_id rel_row drug_is_first = row ''PharmGKB Accession Id''"
  show "\<exists>st'. write_relation_row render cfg st2 rel_row drug_is_first genes drugs = Inr st'
                \<and> mcf_file st' = mcf_file st2"
    using a by (cases "drugs (relation_drug_id rel_row drug_is_first)")
      (auto simp: write_relation_row_def relation_gene_id_def relation_drug_id_def)
next
  assume a: "genes (row ''PharmGKB Accession Id'') = Some EmptyStr
         \<and> relation_gene_id rel_row drug_is_first = row ''PharmGKB Accession Id''"
    and d: "drugs (relation_drug_id rel_row drug_is_first) \<noteq> None"
  show "write_relation_row render cfg st2 rel_row drug_is_first genes drugs = Inr st2"
    using a d by (cases "drugs (relation_drug_id rel_row drug_is_first)")
      (auto simp: write_relation_row_def relation_gene_id_def relation_drug_id_def)
qed

theorem empty_symbol_gene_witness:
  "write_gene_row plain_render example_config \<lparr>mcf_file = [], stdout = []\<rparr>
     ((\<lambda>c. [])(''PharmGKB Accession Id'' := ''PA300'', ''Name'' := ''unnamed gene'')) Map.empty
   = Inr (\<lparr>mcf_file = [], stdout = []\<rparr>, [''PA300'' \<mapsto> EmptyStr])
   \<and> write_relation_row plain_render example_config \<lparr>mcf_file = [], stdout = []\<rparr>
     ((\<lambda>c. [])(''Entity1_id'' := ''PA100'', ''Entity2_id'' := ''PA300'')) True
     [''PA300'' \<mapsto> EmptyStr] [''PA100'' \<mapsto> ''bio/CHEMBL1'']
   = Inr \<lparr>mcf_file = [], stdout = []\<rparr>"
proof -
  let ?row = "(\<lambda>c. [])(''PharmGKB Accession Id'' := ''PA300'', ''Name'' := ''unnamed gene'')"
  let ?rel = "(\<lambda>c. [])(''Entity1_id'' := ''PA100'', ''Entity2_id'' := ''PA300'')"
  let ?st = "\<lparr>mcf_file = [], stdout = []\<rparr>"
  have h: "?row ''Symbol'' = []" by simp
  note T = empty_symbol_gene [where row = ?row and render = plain_render
      and cfg = example_config and st = ?st and pharm_to_dcid = Map.empty
      and genes = "[''PA300'' \<mapsto> EmptyStr]" and drugs = "[''PA100'' \<mapsto> ''bio/CHEMBL1'']"
      and rel_row = ?rel and drug_is_first = True and ?st2.0 = ?st, OF h]
  have g: "write_gene_row plain_render example_config ?st ?row Map.empty
             = Inr (?st, [''PA300'' \<mapsto> EmptyStr])"
    using T [THEN conjunct2, THEN conjunct1] by simp
  have p: "[''PA300'' \<mapsto> EmptyStr] (?row ''PharmGKB Accession Id'') = Some EmptyStr
           \<and> relation_gene_id ?rel True = ?row ''PharmGKB Accession Id''"
    by (simp add: relation_gene_id_def)
  have d: "[''PA100'' \<mapsto> ''bio/CHEMBL1''] (relation_drug_id ?rel True) \<noteq> None"
    by (simp add: relation_drug_id_def)
  have r: "write_relation_row plain_render example_config ?st ?rel True
             [''PA300'' \<mapsto> EmptyStr] [''PA100'' \<mapsto> ''bio/CHEMBL1''] = Inr ?st"
    using T [THEN conjunct2, THEN conjunct2, THEN mp, OF p, THEN conjunct2, THEN mp, OF d] .
  from g r show ?thesis by (rule conjI)
qed

subsection \<open>Gene nodes\<close>





subsection \<open>Relationship nodes\<close>






lemma remove_sub_bio_prefix:
  "remove_sub ''bio/'' x = x \<Longrightarrow> remove_sub ''bio/'' (''bio/'' @ x) = x"
  by simp

text \<open>
  The dcids \<open>write_drug_row\<close> and \<open>write_gene_row\<close> store in the maps are never
  empty.
\<close>

lemma write_drug_row_binds:
  "write_drug_row render cfg st row pharm_to_dcid = Inr (st', pharm_to_dcid') \<Longrightarrow>
   pharm_to_dcid' = pharm_to_dcid(row ''PharmGKB Accession Id'' \<mapsto> get_drug_dcid row)
   \<and> get_drug_dcid row \<noteq> []"
  by (auto simp: write_drug_row_def get_drug_dcid_def Let_def split: sum.splits)

lemma get_gene_dcids_not_empty:
  "list_all (\<lambda>g. g \<noteq> []) (iter_dcids (get_gene_dcids symbol))"
  by (simp add: get_gene_dcids_def)




end
